theory Spec2Isabelle
  imports Main "HOL-Library.Sublist"
begin

section \<open>Data model of the SQLite adapters\<close>

text \<open>
  The two source files build SQL statements (text plus positional arguments) for a
  per-topic messages table and a per-topic offsets table, and decode scanned rows.
  Go strings and byte slices are byte sequences: both are modelled as \<open>string\<close>.
  Go's \<open>int\<close> and \<open>int64\<close> values are only compared with zero, printed, or passed
  on unchanged, never computed with, so they are modelled as \<open>int\<close>.
\<close>

text \<open>A bound argument of a statement (\<open>interface{}\<close> in the source): the code binds
  strings and row offsets only.\<close>

datatype arg = ArgString string | ArgInt int

text \<open>\<open>type Query struct { Query string; Args []interface{} }\<close>. A nil argument
  slice and an empty one are both the empty list.\<close>

record Query =
  Query :: string
  Args :: "arg list"

text \<open>The zero value \<open>Query{}\<close>.\<close>

definition EmptyQuery :: Query where
  "EmptyQuery = \<lparr>Query = [], Args = []\<rparr>"

text \<open>\<open>DefaultSQLiteSchema\<close>: the optional table-name callback (nil is \<open>None\<close>) and the
  batch size.\<close>

record DefaultSQLiteSchema =
  GenerateMessagesTableName :: "(string \<Rightarrow> string) option"
  SubscribeBatchSize :: int

text \<open>\<open>DefaultSQLiteOffsetsAdapter\<close>: the optional offsets-table-name callback.\<close>

record DefaultSQLiteOffsetsAdapter =
  GenerateMessagesOffsetsTableName :: "(string \<Rightarrow> string) option"

text \<open>The \<open>OffsetsAdapter\<close> interface as \<open>SelectQuery\<close> uses it: its method
  \<open>NextOffsetQuery(topic, consumerGroup)\<close>.\<close>

type_synonym OffsetsAdapter = "string \<Rightarrow> string \<Rightarrow> Query"

text \<open>A string-keyed, string-valued metadata mapping (\<open>map[string]string\<close>).\<close>

type_synonym Metadata = "string \<rightharpoonup> string"

text \<open>The message entity, with the fields the adapter reads and writes.\<close>

record Message =
  MsgUUID :: string
  MsgMetadata :: Metadata
  MsgPayload :: string

text \<open>\<open>message.NewMessage(uuid, payload)\<close>: a message with a fresh, empty metadata
  mapping.\<close>

definition NewMessage :: "string \<Rightarrow> string \<Rightarrow> Message" where
  "NewMessage uuid payload = \<lparr>MsgUUID = uuid, MsgMetadata = Map.empty, MsgPayload = payload\<rparr>"

text \<open>A fetched row. The metadata column is nullable and the code tests it against nil,
  so it is an option; the message pointer is nil (\<open>None\<close>) until the row is decoded.
  The code never tests \<open>UUID\<close> or \<open>Payload\<close> against nil, so for these two a nil
  slice and an empty one are the same empty sequence.\<close>

record Row =
  Offset :: int
  UUID :: string
  Payload :: string
  Metadata :: "string option"
  Msg :: "Message option"

text \<open>The zero value \<open>Row{}\<close>.\<close>

definition EmptyRow :: Row where
  "EmptyRow = \<lparr>Offset = 0, UUID = [], Payload = [], Metadata = None, Msg = None\<rparr>"

text \<open>Errors: one raised by a collaborator (the JSON codec, the row scanner), or an
  error wrapped with a message, as \<open>errors.Wrap\<close> and \<open>errors.Wrapf\<close> build it.\<close>

datatype error = External string | WithMessage error string

definition Wrap :: "error \<Rightarrow> string \<Rightarrow> error" where
  "Wrap err message = WithMessage err message"

text \<open>The text of an error: a wrapped error prints its message, a colon, and the cause.\<close>

fun Error :: "error \<Rightarrow> string" where
  "Error (External m) = m"
| "Error (WithMessage err m) = m @ '': '' @ Error err"

text \<open>The collaborators are parameters. \<open>json.Marshal\<close> on a metadata mapping gives
  bytes or an error; \<open>json.Unmarshal(data, &target)\<close> takes the bytes and the
  target's current value and gives the target's new value or an error; \<open>Scan\<close> on the
  four destinations gives the four column values or an error.\<close>

type_synonym Marshal = "Metadata \<Rightarrow> error + string"

type_synonym Unmarshal = "string \<Rightarrow> Metadata \<Rightarrow> error + Metadata"

type_synonym Scanner = "error + (int \<times> string \<times> string \<times> string option)"

section \<open>Text helpers\<close>

abbreviation NL :: string where
  "NL \<equiv> [CHR 0x0A]"

abbreviation TAB :: string where
  "TAB \<equiv> [CHR 0x09]"

text \<open>\<open>fmt.Sprintf("%d", n)\<close>: decimal digits, with a leading minus sign for a
  negative number.\<close>

definition digit :: "nat \<Rightarrow> char" where
  "digit d = ''0123456789'' ! d"

fun FormatNat :: "nat \<Rightarrow> string" where
  "FormatNat n = (if n < 10 then [digit n] else FormatNat (n div 10) @ [digit (n mod 10)])"

declare FormatNat.simps [simp del]

definition Sprintf_d :: "int \<Rightarrow> string" where
  "Sprintf_d i = (if i < 0 then CHR ''-'' # FormatNat (nat (- i)) else FormatNat (nat i))"

text \<open>The number that a decimal numeral denotes, to state that \<open>Sprintf_d\<close> prints
  its argument without loss.\<close>

definition digit_value :: "char \<Rightarrow> nat" where
  "digit_value c = of_char c - 48"

definition DecimalNat :: "string \<Rightarrow> nat" where
  "DecimalNat ds = foldl (\<lambda>a c. 10 * a + digit_value c) 0 ds"

definition DecimalValue :: "string \<Rightarrow> int" where
  "DecimalValue s =
     (case s of
        [] \<Rightarrow> 0
      | c # ds \<Rightarrow> if c = CHR ''-'' then - int (DecimalNat ds) else int (DecimalNat s))"

text \<open>\<open>strings.Join\<close>, \<open>strings.Repeat\<close> and \<open>strings.TrimRight\<close> (which drops
  every trailing character that belongs to the cutset).\<close>

fun Join :: "string list \<Rightarrow> string \<Rightarrow> string" where
  "Join [] sep = []"
| "Join [x] sep = x"
| "Join (x # y # ys) sep = x @ sep @ Join (y # ys) sep"

definition Repeat :: "string \<Rightarrow> nat \<Rightarrow> string" where
  "Repeat s count = concat (replicate count s)"

definition TrimRight :: "string \<Rightarrow> string \<Rightarrow> string" where
  "TrimRight s cutset = rev (dropWhile (\<lambda>c. c \<in> set cutset) (rev s))"

section \<open>The messages-table adapter: statements\<close>

text \<open>\<open>MessagesTable\<close>: the callback when set, else \<open>fmt.Sprintf("`watermill_%s`", topic)\<close>.\<close>

definition MessagesTable :: "DefaultSQLiteSchema \<Rightarrow> string \<Rightarrow> string" where
  "MessagesTable s topic =
     (case GenerateMessagesTableName s of
        Some g \<Rightarrow> g topic
      | None \<Rightarrow> ''`watermill_'' @ topic @ ''`'')"

definition batchSize :: "DefaultSQLiteSchema \<Rightarrow> int" where
  "batchSize s = (if SubscribeBatchSize s = 0 then 100 else SubscribeBatchSize s)"

definition SelectQuery ::
  "DefaultSQLiteSchema \<Rightarrow> string \<Rightarrow> string \<Rightarrow> OffsetsAdapter \<Rightarrow> Query" where
  "SelectQuery s topic consumerGroup offsetsAdapter =
     (let nextOffsetQuery = offsetsAdapter topic consumerGroup;
          selectQuery =
            NL @ TAB @ TAB @ ''SELECT offset, uuid, payload, metadata FROM '' @ MessagesTable s topic
            @ NL @ TAB @ TAB @ ''WHERE ''
            @ NL @ TAB @ TAB @ TAB @ ''offset > ('' @ Query nextOffsetQuery @ '')''
            @ NL @ TAB @ TAB @ ''ORDER BY ''
            @ NL @ TAB @ TAB @ TAB @ ''offset ASC''
            @ NL @ TAB @ TAB @ ''LIMIT '' @ Sprintf_d (batchSize s)
      in \<lparr>Query = selectQuery, Args = Args nextOffsetQuery\<rparr>)"

definition SchemaInitializingQueries :: "DefaultSQLiteSchema \<Rightarrow> string \<Rightarrow> Query list" where
  "SchemaInitializingQueries s topic =
     (let createMessagesTable = Join
            [''CREATE TABLE IF NOT EXISTS '' @ MessagesTable s topic @ '' ('',
             ''`offset` INTEGER NOT NULL AUTOINCREMENT PRIMARY KEY,'',
             ''`uuid` TEXT NOT NULL,'',
             ''`created_at` TEXT NOT NULL,'',
             ''`payload` BLOB DEFAULT NULL,'',
             ''`metadata` BLOB DEFAULT NULL'',
             '');''] NL
      in [\<lparr>Query = createMessagesTable, Args = []\<rparr>])"

text \<open>The loop of \<open>InsertQuery\<close>: it appends three arguments per message and returns
  at the first message whose metadata does not marshal.\<close>

fun InsertArgs :: "Marshal \<Rightarrow> Message list \<Rightarrow> arg list \<Rightarrow> error + arg list" where
  "InsertArgs marshal [] args = Inr args"
| "InsertArgs marshal (msg # msgs) args =
     (case marshal (MsgMetadata msg) of
        Inl err \<Rightarrow>
          Inl (Wrap err (''could not marshal metadata into JSON for message '' @ MsgUUID msg))
      | Inr metadata \<Rightarrow>
          InsertArgs marshal msgs
            (args @ [ArgString (MsgUUID msg), ArgString (MsgPayload msg), ArgString metadata]))"

text \<open>\<open>InsertQuery\<close> returns a statement and an error; the error is nil (\<open>None\<close>) on
  success.\<close>

definition InsertQuery ::
  "Marshal \<Rightarrow> DefaultSQLiteSchema \<Rightarrow> string \<Rightarrow> Message list \<Rightarrow> Query \<times> error option" where
  "InsertQuery marshal s topic msgs =
     (let insertQuery =
            ''INSERT INTO '' @ MessagesTable s topic @ '' (uuid, payload, metadata) VALUES ''
            @ TrimRight (Repeat ''(?,?,?),'' (length msgs)) '',''
      in case InsertArgs marshal msgs [] of
           Inl err \<Rightarrow> (EmptyQuery, Some err)
         | Inr args \<Rightarrow> (\<lparr>Query = insertQuery, Args = args\<rparr>, None))"

section \<open>The messages-table adapter: decoding a row\<close>

definition UnmarshalMessage :: "Unmarshal \<Rightarrow> Scanner \<Rightarrow> Row \<times> error option" where
  "UnmarshalMessage unmarshal row =
     (case row of
        Inl err \<Rightarrow> (EmptyRow, Some (Wrap err ''could not scan message row''))
      | Inr (off, uuid, payload, metadata) \<Rightarrow>
          (let r = \<lparr>Offset = off, UUID = uuid, Payload = payload, Metadata = metadata, Msg = None\<rparr>;
               msg = NewMessage (UUID r) (Payload r)
           in case Metadata r of
                None \<Rightarrow> (r\<lparr>Msg := Some msg\<rparr>, None)
              | Some data \<Rightarrow>
                  (case unmarshal data (MsgMetadata msg) of
                     Inl err \<Rightarrow> (EmptyRow, Some (Wrap err ''could not unmarshal metadata as JSON''))
                   | Inr md \<Rightarrow> (r\<lparr>Msg := Some (msg\<lparr>MsgMetadata := md\<rparr>)\<rparr>, None))))"

section \<open>The offsets-table adapter: statements\<close>

definition MessagesOffsetsTable :: "DefaultSQLiteOffsetsAdapter \<Rightarrow> string \<Rightarrow> string" where
  "MessagesOffsetsTable a topic =
     (case GenerateMessagesOffsetsTableName a of
        Some g \<Rightarrow> g topic
      | None \<Rightarrow> ''`watermill_offsets_'' @ topic @ ''`'')"

definition NextOffsetQuery :: "DefaultSQLiteOffsetsAdapter \<Rightarrow> string \<Rightarrow> string \<Rightarrow> Query" where
  "NextOffsetQuery a topic consumerGroup =
     \<lparr>Query =
        ''SELECT COALESCE(''
        @ NL @ TAB @ TAB @ TAB @ TAB @ ''(SELECT offset_acked''
        @ NL @ TAB @ TAB @ TAB @ TAB @ '' FROM '' @ MessagesOffsetsTable a topic
        @ NL @ TAB @ TAB @ TAB @ TAB @ '' WHERE consumer_group=? FOR UPDATE''
        @ NL @ TAB @ TAB @ TAB @ TAB @ ''), 0)'',
      Args = [ArgString consumerGroup]\<rparr>"

definition AckMessageQuery ::
  "DefaultSQLiteOffsetsAdapter \<Rightarrow> string \<Rightarrow> Row \<Rightarrow> string \<Rightarrow> Query" where
  "AckMessageQuery a topic row consumerGroup =
     (let ackQuery =
            ''INSERT INTO '' @ MessagesOffsetsTable a topic
            @ '' (offset_consumed, offset_acked, consumer_group)''
            @ NL @ TAB @ TAB
            @ ''VALUES (?, ?, ?) ON DUPLICATE KEY UPDATE offset_consumed=VALUES(offset_consumed), offset_acked=VALUES(offset_acked)''
      in \<lparr>Query = ackQuery, Args = [ArgInt (Offset row), ArgInt (Offset row), ArgString consumerGroup]\<rparr>)"

text \<open>\<open>ConsumedMessageQuery\<close> takes \<open>consumerULID\<close> and never reads it.\<close>

definition ConsumedMessageQuery ::
  "DefaultSQLiteOffsetsAdapter \<Rightarrow> string \<Rightarrow> Row \<Rightarrow> string \<Rightarrow> string \<Rightarrow> Query" where
  "ConsumedMessageQuery a topic row consumerGroup consumerULID =
     (let ackQuery =
            ''INSERT INTO '' @ MessagesOffsetsTable a topic
            @ '' (offset_consumed, consumer_group)''
            @ NL @ TAB @ TAB
            @ ''VALUES (?, ?) ON DUPLICATE KEY UPDATE offset_consumed=VALUES(offset_consumed)''
      in \<lparr>Query = ackQuery, Args = [ArgInt (Offset row), ArgString consumerGroup]\<rparr>)"

definition OffsetsSchemaInitializingQueries ::
  "DefaultSQLiteOffsetsAdapter \<Rightarrow> string \<Rightarrow> Query list" where
  "OffsetsSchemaInitializingQueries a topic =
     [\<lparr>Query =
         NL @ TAB @ TAB @ TAB @ TAB @ ''CREATE TABLE IF NOT EXISTS '' @ MessagesOffsetsTable a topic @ '' (''
         @ NL @ TAB @ TAB @ TAB @ TAB @ ''consumer_group TEXT NOT NULL,''
         @ NL @ TAB @ TAB @ TAB @ TAB @ ''offset_acked INTEGER,''
         @ NL @ TAB @ TAB @ TAB @ TAB @ ''offset_consumed INTEGER NOT NULL,''
         @ NL @ TAB @ TAB @ TAB @ TAB @ ''PRIMARY KEY(consumer_group)''
         @ NL @ TAB @ TAB @ TAB @ '')'',
       Args = []\<rparr>]"

section \<open>Two entries of the JSON codec\<close>



section \<open>Facts about the text helpers\<close>


lemma digit_cases: "d < 10 \<Longrightarrow> d \<in> {0, 1, 2, 3, 4, 5, 6, 7, 8, 9::nat}"
  by auto

lemma digit_value_digit: "d < 10 \<Longrightarrow> digit_value (digit d) = d"
  using digit_cases [of d] by (auto simp: digit_def digit_value_def)

lemma digit_not_minus: "d < 10 \<Longrightarrow> digit d \<noteq> CHR ''-''"
  using digit_cases [of d] by (auto simp: digit_def)

lemma DecimalNat_snoc: "DecimalNat (ds @ [c]) = 10 * DecimalNat ds + digit_value c"
  by (simp add: DecimalNat_def)

lemma DecimalNat_FormatNat: "DecimalNat (FormatNat n) = n"
proof (induction n rule: FormatNat.induct)
  case (1 n)
  show ?case
  proof (cases "n < 10")
    case True
    then show ?thesis
      by (simp add: FormatNat.simps [of n] DecimalNat_def digit_value_digit)
  next
    case False
    then have "DecimalNat (FormatNat (n div 10)) = n div 10"
      using 1 by simp
    then show ?thesis using False
      by (simp add: FormatNat.simps [of n] DecimalNat_snoc digit_value_digit)
  qed
qed

lemma FormatNat_head: "\<exists>c cs. FormatNat n = c # cs \<and> c \<noteq> CHR ''-''"
proof (induction n rule: FormatNat.induct)
  case (1 n)
  show ?case
  proof (cases "n < 10")
    case True
    then show ?thesis
      by (simp add: FormatNat.simps [of n] digit_not_minus)
  next
    case False
    then obtain c cs where "FormatNat (n div 10) = c # cs" "c \<noteq> CHR ''-''"
      using 1 by blast
    then show ?thesis using False
      by (simp add: FormatNat.simps [of n])
  qed
qed

text \<open>The numeral printed for the batch size denotes the batch size, so two different
  batch sizes never print the same \<open>LIMIT\<close>.\<close>

lemma DecimalValue_Sprintf_d: "DecimalValue (Sprintf_d i) = i"
proof (cases "i < 0")
  case True
  then show ?thesis
    by (simp add: Sprintf_d_def DecimalValue_def DecimalNat_FormatNat)
next
  case False
  obtain c cs where "FormatNat (nat i) = c # cs" "c \<noteq> CHR ''-''"
    using FormatNat_head by blast
  then have "DecimalValue (FormatNat (nat i)) = int (DecimalNat (FormatNat (nat i)))"
    by (simp add: DecimalValue_def)
  then show ?thesis using False
    by (simp add: Sprintf_d_def DecimalNat_FormatNat)
qed

lemma Sprintf_d_inj: "Sprintf_d i = Sprintf_d j \<Longrightarrow> i = j"
  using DecimalValue_Sprintf_d by metis

text \<open>The placeholder list of \<open>InsertQuery\<close>: the trailing comma of the repeated group
  is trimmed, which leaves one \<open>(?,?,?)\<close> per message, separated by commas.\<close>

lemma Join_replicate_Suc:
  "Join (replicate (Suc n) x) sep = concat (replicate n (x @ sep)) @ x"
  by (induction n) simp_all

lemma concat_replicate_Suc_right:
  "concat (replicate (Suc n) x) = concat (replicate n x) @ x"
  by (induction n) simp_all

lemma TrimRight_placeholders:
  "TrimRight (Repeat ''(?,?,?),'' n) '','' = Join (replicate n ''(?,?,?)'') '',''"
proof (cases n)
  case 0
  then show ?thesis by (simp add: TrimRight_def Repeat_def)
next
  case (Suc k)
  have "Repeat ''(?,?,?),'' (Suc k) = concat (replicate k ''(?,?,?),'') @ ''(?,?,?),''"
    unfolding Repeat_def by (rule concat_replicate_Suc_right)
  then have "TrimRight (Repeat ''(?,?,?),'' (Suc k)) '','' =
      concat (replicate k ''(?,?,?),'') @ ''(?,?,?)''"
    by (simp add: TrimRight_def)
  also have "\<dots> = Join (replicate (Suc k) ''(?,?,?)'') '',''"
    by (simp only: Join_replicate_Suc) simp
  finally show ?thesis using Suc by simp
qed

lemma count_Join_placeholders:
  "count_list (Join (replicate n ''(?,?,?)'') '','') (CHR ''?'') = 3 * n"
proof (cases n)
  case 0
  then show ?thesis by simp
next
  case (Suc k)
  have "count_list (concat (replicate k (''(?,?,?)'' @ '',''))) (CHR ''?'') = 3 * k"
    by (induction k) simp_all
  then show ?thesis using Suc
    by (simp only: Join_replicate_Suc) simp
qed


lemma Error_Wrap: "Error (Wrap err message) = message @ '': '' @ Error err"
  by (simp add: Wrap_def)

section \<open>The insert statement\<close>

text \<open>The loop of \<open>InsertQuery\<close> in closed form: the first message whose metadata does
  not marshal decides the error; without one, every message adds its three arguments.\<close>

lemma InsertArgs_closed:
  "InsertArgs marshal msgs args =
     (case find (\<lambda>m. isl (marshal (MsgMetadata m))) msgs of
        Some m \<Rightarrow> Inl (Wrap (projl (marshal (MsgMetadata m)))
                        (''could not marshal metadata into JSON for message '' @ MsgUUID m))
      | None \<Rightarrow> Inr (args @ concat (map (\<lambda>m. [ArgString (MsgUUID m), ArgString (MsgPayload m),
                          ArgString (projr (marshal (MsgMetadata m)))]) msgs)))"
  by (induction msgs arbitrary: args) (auto split: sum.splits option.splits)

lemma find_first_failure:
  "\<forall>x\<in>set pre. \<not> P x \<Longrightarrow> P m \<Longrightarrow> find P (pre @ m # post) = Some m"
  by (induction pre) simp_all

lemma InsertQuery_closed:
  "InsertQuery marshal s topic msgs =
     (case find (\<lambda>m. isl (marshal (MsgMetadata m))) msgs of
        Some m \<Rightarrow>
          (\<lparr>Query = [], Args = []\<rparr>,
           Some (Wrap (projl (marshal (MsgMetadata m)))
                   (''could not marshal metadata into JSON for message '' @ MsgUUID m)))
      | None \<Rightarrow>
          (\<lparr>Query = ''INSERT INTO '' @ MessagesTable s topic @ '' (uuid, payload, metadata) VALUES ''
                    @ Join (replicate (length msgs) ''(?,?,?)'') '','',
            Args = concat (map (\<lambda>m. [ArgString (MsgUUID m), ArgString (MsgPayload m),
                          ArgString (projr (marshal (MsgMetadata m)))]) msgs)\<rparr>,
           None))"
  unfolding InsertQuery_def Let_def InsertArgs_closed TrimRight_placeholders EmptyQuery_def
  by (simp split: option.splits)

text \<open>
  Claim C5. For every topic and list of messages: if the metadata of some message does not
  marshal, \<open>InsertQuery\<close> returns the empty statement (no text, no arguments) together with
  an error that wraps the marshal error of the first such message and names that message's
  UUID; if the metadata of every message marshals, it returns no error and one statement
  \<open>INSERT INTO t (uuid, payload, metadata) VALUES (?,?,?),...,(?,?,?)\<close> with one group per
  message, whose arguments are the UUID, the payload and the marshalled metadata of each
  message, in the order of the list.
\<close>

theorem InsertQuery_all_or_nothing:
  "((\<exists>m\<in>set msgs. isl (marshal (MsgMetadata m))) \<longrightarrow>
      (\<exists>pre m post e. msgs = pre @ m # post
         \<and> (\<forall>x\<in>set pre. \<not> isl (marshal (MsgMetadata x)))
         \<and> marshal (MsgMetadata m) = Inl e
         \<and> InsertQuery marshal s topic msgs =
             (\<lparr>Query = [], Args = []\<rparr>,
              Some (Wrap e (''could not marshal metadata into JSON for message '' @ MsgUUID m)))))
   \<and> ((\<forall>m\<in>set msgs. \<not> isl (marshal (MsgMetadata m))) \<longrightarrow>
      InsertQuery marshal s topic msgs =
        (\<lparr>Query = ''INSERT INTO '' @ MessagesTable s topic @ '' (uuid, payload, metadata) VALUES ''
                  @ Join (replicate (length msgs) ''(?,?,?)'') '','',
          Args = concat (map (\<lambda>m. [ArgString (MsgUUID m), ArgString (MsgPayload m),
                          ArgString (projr (marshal (MsgMetadata m)))]) msgs)\<rparr>,
         None))"
proof (intro conjI impI)
  assume "\<exists>m\<in>set msgs. isl (marshal (MsgMetadata m))"
  then obtain pre m post where split: "msgs = pre @ m # post"
      and m: "isl (marshal (MsgMetadata m))"
      and pre: "\<forall>x\<in>set pre. \<not> isl (marshal (MsgMetadata x))"
    using split_list_first_prop [of msgs "\<lambda>m. isl (marshal (MsgMetadata m))"] by blast
  from m obtain e where e: "marshal (MsgMetadata m) = Inl e"
    by (cases "marshal (MsgMetadata m)") simp_all
  have "find (\<lambda>m. isl (marshal (MsgMetadata m))) msgs = Some m"
    unfolding split using pre m by (rule find_first_failure)
  then have "InsertQuery marshal s topic msgs =
             (\<lparr>Query = [], Args = []\<rparr>,
              Some (Wrap e (''could not marshal metadata into JSON for message '' @ MsgUUID m)))"
    by (simp add: InsertQuery_closed e)
  with split pre e
  show "\<exists>pre m post e. msgs = pre @ m # post
         \<and> (\<forall>x\<in>set pre. \<not> isl (marshal (MsgMetadata x)))
         \<and> marshal (MsgMetadata m) = Inl e
         \<and> InsertQuery marshal s topic msgs =
             (\<lparr>Query = [], Args = []\<rparr>,
              Some (Wrap e (''could not marshal metadata into JSON for message '' @ MsgUUID m)))"
    by blast
next
  assume "\<forall>m\<in>set msgs. \<not> isl (marshal (MsgMetadata m))"
  then have "find (\<lambda>m. isl (marshal (MsgMetadata m))) msgs = None"
    by (simp add: find_None_iff)
  then show "InsertQuery marshal s topic msgs =
        (\<lparr>Query = ''INSERT INTO '' @ MessagesTable s topic @ '' (uuid, payload, metadata) VALUES ''
                  @ Join (replicate (length msgs) ''(?,?,?)'') '','',
          Args = concat (map (\<lambda>m. [ArgString (MsgUUID m), ArgString (MsgPayload m),
                          ArgString (projr (marshal (MsgMetadata m)))]) msgs)\<rparr>,
         None)"
    by (simp add: InsertQuery_closed)
qed

theorem InsertQuery_all_or_nothing_witness:
  \<open>InsertQuery
      (\<lambda>md. case md ''bad'' of Some v \<Rightarrow> Inl (External ''unsupported value'') | None \<Rightarrow> Inr ''{}'')
      \<lparr>GenerateMessagesTableName = None, SubscribeBatchSize = 0\<rparr> ''orders''
      [\<lparr>MsgUUID = ''id-1'', MsgMetadata = Map.empty, MsgPayload = ''a''\<rparr>,
       \<lparr>MsgUUID = ''id-2'', MsgMetadata = [''bad'' \<mapsto> ''x''], MsgPayload = ''b''\<rparr>,
       \<lparr>MsgUUID = ''id-3'', MsgMetadata = Map.empty, MsgPayload = ''c''\<rparr>] =
     (\<lparr>Query = [], Args = []\<rparr>,
      Some (Wrap (External ''unsupported value'')
              ''could not marshal metadata into JSON for message id-2''))
   \<and> InsertQuery
      (\<lambda>md. case md ''bad'' of Some v \<Rightarrow> Inl (External ''unsupported value'') | None \<Rightarrow> Inr ''{}'')
      \<lparr>GenerateMessagesTableName = None, SubscribeBatchSize = 0\<rparr> ''orders''
      [\<lparr>MsgUUID = ''id-1'', MsgMetadata = Map.empty, MsgPayload = ''a''\<rparr>,
       \<lparr>MsgUUID = ''id-3'', MsgMetadata = Map.empty, MsgPayload = ''c''\<rparr>] =
     (\<lparr>Query = ''INSERT INTO `watermill_orders` (uuid, payload, metadata) VALUES (?,?,?),(?,?,?)'',
       Args = [ArgString ''id-1'', ArgString ''a'', ArgString ''{}'',
               ArgString ''id-3'', ArgString ''c'', ArgString ''{}'']\<rparr>,
      None)\<close>
proof -
  let ?marshal = \<open>\<lambda>md :: Metadata. case md ''bad'' of
      Some v \<Rightarrow> (Inl (External ''unsupported value'') :: error + string) | None \<Rightarrow> Inr ''{}''\<close>
  let ?s = \<open>\<lparr>GenerateMessagesTableName = None, SubscribeBatchSize = 0\<rparr>\<close>
  let ?m1 = \<open>\<lparr>MsgUUID = ''id-1'', MsgMetadata = Map.empty, MsgPayload = ''a''\<rparr>\<close>
  let ?m2 = \<open>\<lparr>MsgUUID = ''id-2'', MsgMetadata = [''bad'' \<mapsto> ''x''], MsgPayload = ''b''\<rparr>\<close>
  let ?m3 = \<open>\<lparr>MsgUUID = ''id-3'', MsgMetadata = Map.empty, MsgPayload = ''c''\<rparr>\<close>
  have bad: \<open>\<exists>m\<in>set [?m1, ?m2, ?m3]. isl (?marshal (MsgMetadata m))\<close>
    by simp
  have good: \<open>\<forall>m\<in>set [?m1, ?m3]. \<not> isl (?marshal (MsgMetadata m))\<close>
    by simp
  from bad InsertQuery_all_or_nothing [of \<open>[?m1, ?m2, ?m3]\<close> ?marshal ?s \<open>''orders''\<close>]
  obtain pre m post e where split: \<open>[?m1, ?m2, ?m3] = pre @ m # post\<close>
    and pre: \<open>\<forall>x\<in>set pre. \<not> isl (?marshal (MsgMetadata x))\<close>
    and e: \<open>?marshal (MsgMetadata m) = Inl e\<close>
    and res: \<open>InsertQuery ?marshal ?s ''orders'' [?m1, ?m2, ?m3] =
             (\<lparr>Query = [], Args = []\<rparr>,
              Some (Wrap e (''could not marshal metadata into JSON for message '' @ MsgUUID m)))\<close>
    by blast
  have \<open>m = ?m2\<close>
    using split pre e
    by (auto simp: Cons_eq_append_conv append_eq_Cons_conv split: option.splits)
  with e res have first: \<open>InsertQuery ?marshal ?s ''orders'' [?m1, ?m2, ?m3] =
     (\<lparr>Query = [], Args = []\<rparr>,
      Some (Wrap (External ''unsupported value'')
              ''could not marshal metadata into JSON for message id-2''))\<close>
    by simp
  from good InsertQuery_all_or_nothing [of \<open>[?m1, ?m3]\<close> ?marshal ?s \<open>''orders''\<close>]
  have \<open>InsertQuery ?marshal ?s ''orders'' [?m1, ?m3] =
     (\<lparr>Query = ''INSERT INTO `watermill_orders` (uuid, payload, metadata) VALUES (?,?,?),(?,?,?)'',
       Args = [ArgString ''id-1'', ArgString ''a'', ArgString ''{}'',
               ArgString ''id-3'', ArgString ''c'', ArgString ''{}'']\<rparr>,
      None)\<close>
    by (simp add: MessagesTable_def numeral_2_eq_2)
  with first show ?thesis by simp
qed

section \<open>The fetch statement\<close>

text \<open>
  The program builds statements and does not run them: which rows a database selects,
  returns, locks or writes for a statement is not part of it. What the program fixes is
  the text and the bound arguments, stated here for the fetch statement: the text embeds
  the text of the adapter's \<open>NextOffsetQuery\<close> statement, and the arguments are exactly
  the arguments of that statement; with the offsets adapter of this repository these are
  the consumer group alone.
\<close>

lemma SelectQuery_statement:
  "Query (SelectQuery s topic consumerGroup offsetsAdapter) =
       NL @ TAB @ TAB @ ''SELECT offset, uuid, payload, metadata FROM '' @ MessagesTable s topic
       @ NL @ TAB @ TAB @ ''WHERE ''
       @ NL @ TAB @ TAB @ TAB @ ''offset > ('' @ Query (offsetsAdapter topic consumerGroup) @ '')''
       @ NL @ TAB @ TAB @ ''ORDER BY ''
       @ NL @ TAB @ TAB @ TAB @ ''offset ASC''
       @ NL @ TAB @ TAB @ ''LIMIT '' @ Sprintf_d (batchSize s)
   \<and> Args (SelectQuery s topic consumerGroup offsetsAdapter) =
       Args (offsetsAdapter topic consumerGroup)
   \<and> Args (SelectQuery s topic consumerGroup (NextOffsetQuery a)) = [ArgString consumerGroup]"
  by (simp add: SelectQuery_def NextOffsetQuery_def Let_def)



section \<open>The offset statements\<close>

text \<open>
  The text and the arguments of the three offset statements. The statement of
  \<open>NextOffsetQuery\<close> binds one argument, the consumer group.
\<close>

lemma NextOffsetQuery_statement:
  "Query (NextOffsetQuery a topic consumerGroup) =
       ''SELECT COALESCE(''
       @ NL @ TAB @ TAB @ TAB @ TAB @ ''(SELECT offset_acked''
       @ NL @ TAB @ TAB @ TAB @ TAB @ '' FROM '' @ MessagesOffsetsTable a topic
       @ NL @ TAB @ TAB @ TAB @ TAB @ '' WHERE consumer_group=? FOR UPDATE''
       @ NL @ TAB @ TAB @ TAB @ TAB @ ''), 0)''
   \<and> Args (NextOffsetQuery a topic consumerGroup) = [ArgString consumerGroup]"
  by (simp add: NextOffsetQuery_def)

text \<open>
  The statement of \<open>AckMessageQuery\<close> binds the row's offset, the row's offset again, and
  the consumer group, in this order.
\<close>

lemma AckMessageQuery_statement:
  "Query (AckMessageQuery a topic row consumerGroup) =
       ''INSERT INTO '' @ MessagesOffsetsTable a topic
       @ '' (offset_consumed, offset_acked, consumer_group)''
       @ NL @ TAB @ TAB
       @ ''VALUES (?, ?, ?) ON DUPLICATE KEY UPDATE offset_consumed=VALUES(offset_consumed), offset_acked=VALUES(offset_acked)''
   \<and> Args (AckMessageQuery a topic row consumerGroup) =
       [ArgInt (Offset row), ArgInt (Offset row), ArgString consumerGroup]"
  by (simp add: AckMessageQuery_def Let_def)

text \<open>
  The statement of \<open>ConsumedMessageQuery\<close> binds the row's offset and the consumer
  group; the text after the table name does not mention \<open>offset_acked\<close>; and the
  statement is the same for any two values of \<open>consumerULID\<close>.
\<close>

lemma ConsumedMessageQuery_statement:
  "Query (ConsumedMessageQuery a topic row consumerGroup consumerULID) =
       ''INSERT INTO '' @ MessagesOffsetsTable a topic
       @ '' (offset_consumed, consumer_group)'' @ NL @ TAB @ TAB
       @ ''VALUES (?, ?) ON DUPLICATE KEY UPDATE offset_consumed=VALUES(offset_consumed)''
   \<and> \<not> sublist ''offset_acked''
        ('' (offset_consumed, consumer_group)'' @ NL @ TAB @ TAB
         @ ''VALUES (?, ?) ON DUPLICATE KEY UPDATE offset_consumed=VALUES(offset_consumed)'')
   \<and> Args (ConsumedMessageQuery a topic row consumerGroup consumerULID) =
       [ArgInt (Offset row), ArgString consumerGroup]
   \<and> ConsumedMessageQuery a topic row consumerGroup consumerULID =
       ConsumedMessageQuery a topic row consumerGroup consumerULID'"
proof -
  have "\<not> sublist ''offset_acked''
        ('' (offset_consumed, consumer_group)'' @ NL @ TAB @ TAB
         @ ''VALUES (?, ?) ON DUPLICATE KEY UPDATE offset_consumed=VALUES(offset_consumed)'')"
    by code_simp
  then show ?thesis
    by (simp add: ConsumedMessageQuery_def Let_def)
qed

section \<open>Decoding a fetched row\<close>

text \<open>
  Claim C10. For every fetched row whose metadata column is null, \<open>UnmarshalMessage\<close>
  returns no error and the scanned row with a message whose UUID and payload are those of
  the row and whose metadata mapping is empty; the result is the same for every metadata
  decoder, that is, the decoder is not consulted.
\<close>

theorem UnmarshalMessage_null_metadata:
  "UnmarshalMessage unmarshal (Inr (off, uuid, payload, None)) =
     (\<lparr>Offset = off, UUID = uuid, Payload = payload, Metadata = None,
       Msg = Some \<lparr>MsgUUID = uuid, MsgMetadata = Map.empty, MsgPayload = payload\<rparr>\<rparr>, None)
   \<and> UnmarshalMessage unmarshal (Inr (off, uuid, payload, None)) =
     UnmarshalMessage unmarshal' (Inr (off, uuid, payload, None))"
  by (simp add: UnmarshalMessage_def NewMessage_def Let_def)

text \<open>
  Claim C9. For every fetched row whose metadata column is not null and whose metadata the
  decoder rejects, \<open>UnmarshalMessage\<close> returns the zero row (offset 0, no bytes, no
  message) together with the decoder's error wrapped as
  \<open>could not unmarshal metadata as JSON\<close>. Decoding is per row: when the rows of a batch
  are decoded one after the other and the last one fails, the results of the rows decoded
  before it are what they are without it.
\<close>

theorem UnmarshalMessage_decode_error:
  assumes "unmarshal data Map.empty = Inl err"
  shows "UnmarshalMessage unmarshal (Inr (off, uuid, payload, Some data)) =
           (\<lparr>Offset = 0, UUID = [], Payload = [], Metadata = None, Msg = None\<rparr>,
            Some (Wrap err ''could not unmarshal metadata as JSON''))
       \<and> map (UnmarshalMessage unmarshal) (rows @ [Inr (off, uuid, payload, Some data)]) =
           map (UnmarshalMessage unmarshal) rows
           @ [(\<lparr>Offset = 0, UUID = [], Payload = [], Metadata = None, Msg = None\<rparr>,
               Some (Wrap err ''could not unmarshal metadata as JSON''))]"
  using assms by (simp add: UnmarshalMessage_def NewMessage_def Let_def EmptyRow_def)

theorem UnmarshalMessage_decode_error_witness:
  \<open>map (UnmarshalMessage
          (\<lambda>data target. if data = ''{}'' then Inr target else Inl (External ''invalid character'')))
     [Inr (1, ''id-1'', ''a'', Some ''{}''), Inr (2, ''id-2'', ''b'', Some ''not json'')] =
   [(\<lparr>Offset = 1, UUID = ''id-1'', Payload = ''a'', Metadata = Some ''{}'',
      Msg = Some \<lparr>MsgUUID = ''id-1'', MsgMetadata = Map.empty, MsgPayload = ''a''\<rparr>\<rparr>, None),
    (\<lparr>Offset = 0, UUID = [], Payload = [], Metadata = None, Msg = None\<rparr>,
     Some (Wrap (External ''invalid character'') ''could not unmarshal metadata as JSON''))]\<close>
  using UnmarshalMessage_decode_error
    [of \<open>\<lambda>data target. if data = ''{}'' then Inr target else Inl (External ''invalid character'')\<close>
        \<open>''not json''\<close> \<open>External ''invalid character''\<close> 2 \<open>''id-2''\<close> \<open>''b''\<close>
        \<open>[Inr (1, ''id-1'', ''a'', Some ''{}'')]\<close>]
  by (simp add: UnmarshalMessage_def NewMessage_def Let_def)




section \<open>Placeholders and arguments\<close>

text \<open>When the table name has no question mark, every statement has as many placeholders
  as it binds arguments; the fetch statement adds no placeholder to those of its
  subquery.\<close>

lemma NextOffsetQuery_placeholders:
  "CHR ''?'' \<notin> set (MessagesOffsetsTable a topic) \<Longrightarrow>
   count_list (Query (NextOffsetQuery a topic consumerGroup)) (CHR ''?'') =
   length (Args (NextOffsetQuery a topic consumerGroup))"
  by (simp add: NextOffsetQuery_def)

lemma AckMessageQuery_placeholders:
  "CHR ''?'' \<notin> set (MessagesOffsetsTable a topic) \<Longrightarrow>
   count_list (Query (AckMessageQuery a topic row consumerGroup)) (CHR ''?'') =
   length (Args (AckMessageQuery a topic row consumerGroup))"
  by (simp add: AckMessageQuery_def Let_def)

lemma ConsumedMessageQuery_placeholders:
  "CHR ''?'' \<notin> set (MessagesOffsetsTable a topic) \<Longrightarrow>
   count_list (Query (ConsumedMessageQuery a topic row consumerGroup consumerULID)) (CHR ''?'') =
   length (Args (ConsumedMessageQuery a topic row consumerGroup consumerULID))"
  by (simp add: ConsumedMessageQuery_def Let_def)

lemma InsertQuery_placeholders:
  assumes "CHR ''?'' \<notin> set (MessagesTable s topic)"
      and "InsertQuery marshal s topic msgs = (q, None)"
  shows "count_list (Query q) (CHR ''?'') = length (Args q)"
    and "length (Args q) = 3 * length msgs"
proof -
  have "find (\<lambda>m. isl (marshal (MsgMetadata m))) msgs = None"
    using assms(2) by (cases "find (\<lambda>m. isl (marshal (MsgMetadata m))) msgs")
      (simp_all add: InsertQuery_closed)
  then have q: "q = \<lparr>Query = ''INSERT INTO '' @ MessagesTable s topic @ '' (uuid, payload, metadata) VALUES ''
                    @ Join (replicate (length msgs) ''(?,?,?)'') '','',
            Args = concat (map (\<lambda>m. [ArgString (MsgUUID m), ArgString (MsgPayload m),
                          ArgString (projr (marshal (MsgMetadata m)))]) msgs)\<rparr>"
    using assms(2) by (simp add: InsertQuery_closed)
  show len: "length (Args q) = 3 * length msgs"
    unfolding q by (induction msgs) simp_all
  show "count_list (Query q) (CHR ''?'') = length (Args q)"
    unfolding len using assms(1) by (simp add: q count_Join_placeholders)
qed

lemma SelectQuery_placeholders:
  "CHR ''?'' \<notin> set (MessagesTable s topic) \<Longrightarrow>
   count_list (Query (SelectQuery s topic consumerGroup offsetsAdapter)) (CHR ''?'') =
   count_list (Query (offsetsAdapter topic consumerGroup)) (CHR ''?'')"
proof -
  assume "CHR ''?'' \<notin> set (MessagesTable s topic)"
  moreover have "CHR ''?'' \<notin> set (Sprintf_d i)" for i
  proof -
    have "CHR ''?'' \<notin> set (FormatNat n)" for n
    proof (induction n rule: FormatNat.induct)
      case (1 n)
      have d: "digit (n mod 10) \<noteq> CHR ''?''" "n < 10 \<Longrightarrow> digit n \<noteq> CHR ''?''"
        using digit_cases [of "n mod 10"] digit_cases [of n] by (auto simp: digit_def)
      show ?case using 1 d by (cases "n < 10") (auto simp: FormatNat.simps [of n])
    qed
    then show ?thesis by (simp add: Sprintf_d_def)
  qed
  ultimately show ?thesis
    by (simp add: SelectQuery_def Let_def)
qed

section \<open>The schema statements\<close>

text \<open>Each adapter returns one statement without arguments, a
  \<open>CREATE TABLE IF NOT EXISTS\<close> on the topic's table. The program only builds the
  statement; what a database does when it runs it is not part of the program.\<close>

lemma SchemaInitializingQueries_statement:
  "SchemaInitializingQueries s topic =
     [\<lparr>Query = ''CREATE TABLE IF NOT EXISTS '' @ MessagesTable s topic @ '' ('' @ NL
         @ ''`offset` INTEGER NOT NULL AUTOINCREMENT PRIMARY KEY,'' @ NL
         @ ''`uuid` TEXT NOT NULL,'' @ NL
         @ ''`created_at` TEXT NOT NULL,'' @ NL
         @ ''`payload` BLOB DEFAULT NULL,'' @ NL
         @ ''`metadata` BLOB DEFAULT NULL'' @ NL
         @ '');'',
       Args = []\<rparr>]"
  by (simp add: SchemaInitializingQueries_def Let_def)

lemma OffsetsSchemaInitializingQueries_statement:
  "OffsetsSchemaInitializingQueries a topic =
     [\<lparr>Query =
         NL @ TAB @ TAB @ TAB @ TAB @ ''CREATE TABLE IF NOT EXISTS '' @ MessagesOffsetsTable a topic @ '' (''
         @ NL @ TAB @ TAB @ TAB @ TAB @ ''consumer_group TEXT NOT NULL,''
         @ NL @ TAB @ TAB @ TAB @ TAB @ ''offset_acked INTEGER,''
         @ NL @ TAB @ TAB @ TAB @ TAB @ ''offset_consumed INTEGER NOT NULL,''
         @ NL @ TAB @ TAB @ TAB @ TAB @ ''PRIMARY KEY(consumer_group)''
         @ NL @ TAB @ TAB @ TAB @ '')'',
       Args = []\<rparr>]"
  by (simp add: OffsetsSchemaInitializingQueries_def)

end
